theory Spec2Isabelle
  imports Complex_Main
begin

section \<open>JavaScript values\<close>

text \<open>
  The sources are TypeScript classes whose arguments are typed \<open>any\<close>: values as
  \<open>JSON.parse\<close> delivers them, plus \<open>undefined\<close>. Strings are lists of code units,
  numbers are the finite ones (JSON has neither NaN nor an infinity), an object is the
  list of its own enumerable properties in \<open>Object.entries\<close> order.
\<close>

datatype jsval =
    JUndefined
  | JNull
  | JBool bool
  | JNum rat
  | JStr string
  | JArr "jsval list"
  | JObj "(string \<times> jsval) list"

text \<open>The \<open>typeof\<close> operator.\<close>

fun typeof :: "jsval \<Rightarrow> string" where
  "typeof JUndefined = ''undefined''"
| "typeof JNull = ''object''"
| "typeof (JBool b) = ''boolean''"
| "typeof (JNum r) = ''number''"
| "typeof (JStr s) = ''string''"
| "typeof (JArr xs) = ''object''"
| "typeof (JObj kvs) = ''object''"

text \<open>What \<open>if (v)\<close> and \<open>Boolean(v)\<close> make of a value.\<close>

fun truthy :: "jsval \<Rightarrow> bool" where
  "truthy JUndefined = False"
| "truthy JNull = False"
| "truthy (JBool b) = b"
| "truthy (JNum r) = (r \<noteq> 0)"
| "truthy (JStr s) = (s \<noteq> [])"
| "truthy (JArr xs) = True"
| "truthy (JObj kvs) = True"

text \<open>
  A property read \<open>o[k]\<close> on a plain object finds an own property first and then the
  members every plain object inherits from \<open>Object.prototype\<close>. The inherited members
  are functions (and, for \<open>__proto__\<close>, the prototype object itself): never
  \<open>undefined\<close>, never \<open>null\<close>, always truthy, and with none of the fields a schema has.
\<close>

definition objectPrototypeKeys :: "string list" where
  "objectPrototypeKeys =
     [''constructor'', ''__defineGetter__'', ''__defineSetter__'', ''hasOwnProperty'',
      ''__lookupGetter__'', ''__lookupSetter__'', ''isPrototypeOf'',
      ''propertyIsEnumerable'', ''toString'', ''valueOf'', ''__proto__'',
      ''toLocaleString'']"

datatype 'a member = Own 'a | Inherited | Absent

definition getProp :: "(string \<times> 'a) list \<Rightarrow> string \<Rightarrow> 'a member" where
  "getProp kvs k =
     (case map_of kvs k of
        Some v \<Rightarrow> Own v
      | None \<Rightarrow> if k \<in> set objectPrototypeKeys then Inherited else Absent)"

text \<open>
  An assignment \<open>o[k] = v\<close> on a plain object creates or overwrites the own property
  \<open>k\<close>, except for \<open>__proto__\<close>, which is the prototype's setter and leaves the own
  properties as they are.
\<close>

fun setOwn :: "string \<Rightarrow> 'a \<Rightarrow> (string \<times> 'a) list \<Rightarrow> (string \<times> 'a) list" where
  "setOwn k v [] = [(k, v)]"
| "setOwn k v (p # ps) = (if fst p = k then (k, v) # ps else p # setOwn k v ps)"

definition assignProp :: "string \<Rightarrow> 'a \<Rightarrow> (string \<times> 'a) list \<Rightarrow> (string \<times> 'a) list" where
  "assignProp k v kvs = (if k = ''__proto__'' then kvs else setOwn k v kvs)"

section \<open>Schemas and tools\<close>

text \<open>The fields of a \<open>JSONSchema\<close> that the sources read; \<open>None\<close> is \<open>undefined\<close>.\<close>

record JSONSchema =
  s_type :: "string option"
  s_enum :: "jsval list option"
  s_minimum :: "rat option"
  s_maximum :: "rat option"
  s_minLength :: "rat option"
  s_maxLength :: "rat option"
  s_pattern :: "string option"

definition noFields :: JSONSchema where
  "noFields = \<lparr>s_type = None, s_enum = None, s_minimum = None, s_maximum = None,
     s_minLength = None, s_maxLength = None, s_pattern = None\<rparr>"

record ObjectSchema =
  required :: "string list option"
  properties :: "(string \<times> JSONSchema) list option"
  additionalProperties :: bool

record Tool =
  t_name :: string
  inputSchema :: ObjectSchema
  t_static :: bool

text \<open>
  \<open>schema.properties?.[key]\<close>: \<open>undefined\<close> without a \<open>properties\<close> object or without
  such a member; an inherited member is an object with no schema field.
\<close>

definition propertySchema :: "ObjectSchema \<Rightarrow> string \<Rightarrow> JSONSchema option" where
  "propertySchema schema key =
     (case properties schema of
        None \<Rightarrow> None
      | Some ps \<Rightarrow>
          (case getProp ps key of
             Own s \<Rightarrow> Some s
           | Inherited \<Rightarrow> Some noFields
           | Absent \<Rightarrow> None))"

section \<open>ArgumentSanitizer and PromptContentSanitizer\<close>

text \<open>
  The helpers \<open>sanitizeNumber\<close>, \<open>sanitizeArray\<close> and \<open>sanitizeObject\<close> are called
  but not given in the source, and \<open>String(value)\<close> is the platform's conversion: they
  are parameters.
\<close>

record sanitizer_env =
  String_of :: "jsval \<Rightarrow> string"
  sanitizeNumber :: "jsval \<Rightarrow> jsval"
  sanitizeArray :: "jsval \<Rightarrow> JSONSchema \<Rightarrow> jsval"
  sanitizeObject :: "jsval \<Rightarrow> JSONSchema \<Rightarrow> jsval"

text \<open>The character class \<open>[<>\"\']\<close>.\<close>

definition dangerous :: "char \<Rightarrow> bool" where
  "dangerous c = (c = CHR ''<'' \<or> c = CHR ''>'' \<or> c = CHR 0x22 \<or> c = CHR 0x27)"

definition sanitizeString :: "sanitizer_env \<Rightarrow> jsval \<Rightarrow> string" where
  "sanitizeString env v =
     (let s = (case v of JStr s \<Rightarrow> s | _ \<Rightarrow> String_of env v)
      in filter (\<lambda>c. \<not> dangerous c) s)"

definition sanitizeValue :: "sanitizer_env \<Rightarrow> jsval \<Rightarrow> JSONSchema \<Rightarrow> jsval" where
  "sanitizeValue env v schema =
     (if s_type schema = Some ''string'' then JStr (sanitizeString env v)
      else if s_type schema = Some ''number'' then sanitizeNumber env v
      else if s_type schema = Some ''boolean'' then JBool (truthy v)
      else if s_type schema = Some ''array'' then sanitizeArray env v schema
      else if s_type schema = Some ''object'' then sanitizeObject env v schema
      else v)"

text \<open>
  The loop of \<open>sanitizeArguments\<close> over \<open>Object.entries(args)\<close>, with the object
  \<open>sanitized\<close> built so far.
\<close>

fun sanitizeEntries ::
  "sanitizer_env \<Rightarrow> ObjectSchema \<Rightarrow> (string \<times> jsval) list \<Rightarrow> (string \<times> jsval) list
     \<Rightarrow> (string \<times> jsval) list" where
  "sanitizeEntries env schema [] sanitized = sanitized"
| "sanitizeEntries env schema ((key, v) # rest) sanitized =
     (case propertySchema schema key of
        Some ps \<Rightarrow>
          sanitizeEntries env schema rest (assignProp key (sanitizeValue env v ps) sanitized)
      | None \<Rightarrow> sanitizeEntries env schema rest sanitized)"

definition sanitizeArguments ::
  "sanitizer_env \<Rightarrow> (string \<times> jsval) list \<Rightarrow> Tool \<Rightarrow> (string \<times> jsval) list" where
  "sanitizeArguments env args tool = sanitizeEntries env (inputSchema tool) args []"

text \<open>
  \<open>sanitizeText\<close>: the same character class removed, then every line break
  (\<open>\r\n\<close>, \<open>\r\<close> or \<open>\n\<close>) replaced by one space, then \<open>trim()\<close>.
\<close>

fun replaceLineBreaks :: "string \<Rightarrow> string" where
  "replaceLineBreaks [] = []"
| "replaceLineBreaks [c] = (if c = CHR 0x0D \<or> c = CHR 0x0A then [CHR '' ''] else [c])"
| "replaceLineBreaks (c # d # cs) =
     (if c = CHR 0x0D \<and> d = CHR 0x0A then CHR '' '' # replaceLineBreaks cs
      else if c = CHR 0x0D \<or> c = CHR 0x0A then CHR '' '' # replaceLineBreaks (d # cs)
      else c # replaceLineBreaks (d # cs))"

text \<open>The white space and line terminators \<open>trim()\<close> strips, as far as a code unit of
  eight bits has them.\<close>

definition whiteSpace :: "char \<Rightarrow> bool" where
  "whiteSpace c = (c \<in> {CHR 0x09, CHR 0x0A, CHR 0x0B, CHR 0x0C, CHR 0x0D, CHR 0x20, CHR 0xA0})"

definition trim :: "string \<Rightarrow> string" where
  "trim s = rev (dropWhile whiteSpace (rev (dropWhile whiteSpace s)))"

definition sanitizeText :: "string \<Rightarrow> string" where
  "sanitizeText content = trim (replaceLineBreaks (filter (\<lambda>c. \<not> dangerous c) content))"

section \<open>Errors and validation results\<close>

text \<open>
  Every exception of the sources is a value. The validators collect their findings as
  strings built from templates; a finding is kept here as the template's name with the
  values it interpolates, one constructor per template of the source.
  \<open>CheckTypeText\<close> carries the string the executor's \<open>checkType\<close> returned.
\<close>

datatype finding =
    MissingRequired string
  | UnknownParameter string
  | ExpectedType string string string
  | NotAllowed string "jsval list"
  | BelowMinimum string rat
  | AboveMaximum string rat
  | LengthBelowMinimum string rat
  | LengthAboveMaximum string rat
  | PatternFailed string
  | CheckTypeText string

datatype js_error =
    TypeError
  | SyntaxError
  | Error string
  | ValidationError "finding list"
  | PermissionError string
  | RateLimitError string
  | QuotaError string
  | TimeoutError
  | ToolError nat

record ValidationResult =
  valid :: bool
  errors :: "finding list"

section \<open>QualityToolExecutor.validateArguments\<close>

text \<open>
  \<open>args[param] === undefined || args[param] === null\<close>: an inherited member is
  neither.
\<close>

definition isMissing :: "(string \<times> jsval) list \<Rightarrow> string \<Rightarrow> bool" where
  "isMissing args param =
     (case getProp args param of
        Own v \<Rightarrow> v = JUndefined \<or> v = JNull
      | Inherited \<Rightarrow> False
      | Absent \<Rightarrow> True)"

text \<open>The loop over \<open>schema.required\<close>; the result is what it pushes, in order.\<close>

fun requiredLoop :: "(string \<times> jsval) list \<Rightarrow> string list \<Rightarrow> finding list" where
  "requiredLoop args [] = []"
| "requiredLoop args (param # rest) =
     (if isMissing args param then MissingRequired param # requiredLoop args rest
      else requiredLoop args rest)"

definition checkRequired :: "ObjectSchema \<Rightarrow> (string \<times> jsval) list \<Rightarrow> finding list" where
  "checkRequired schema args =
     (case required schema of None \<Rightarrow> [] | Some ps \<Rightarrow> requiredLoop args ps)"

text \<open>
  The loop over \<open>Object.entries(args)\<close>. \<open>checkType\<close> is called but not given in the
  source: it is a parameter, returning the error string or nothing. The source keeps
  its result in one variable and pushes it when it is truthy, so a non-empty string.
\<close>

fun typeLoop ::
  "(string \<Rightarrow> jsval \<Rightarrow> JSONSchema \<Rightarrow> string option) \<Rightarrow> ObjectSchema
     \<Rightarrow> (string \<times> jsval) list \<Rightarrow> finding list" where
  "typeLoop checkType schema [] = []"
| "typeLoop checkType schema ((param, v) # rest) =
     (case propertySchema schema param of
        Some paramSchema \<Rightarrow>
          (case checkType param v paramSchema of
             Some typeError \<Rightarrow>
               (if typeError \<noteq> [] then CheckTypeText typeError # typeLoop checkType schema rest
                else typeLoop checkType schema rest)
           | None \<Rightarrow> typeLoop checkType schema rest)
      | None \<Rightarrow> typeLoop checkType schema rest)"

definition validateArguments ::
  "(string \<Rightarrow> jsval \<Rightarrow> JSONSchema \<Rightarrow> string option) \<Rightarrow> Tool \<Rightarrow> (string \<times> jsval) list
     \<Rightarrow> ValidationResult" where
  "validateArguments checkType tool args =
     (let schema = inputSchema tool;
          errs = checkRequired schema args @ typeLoop checkType schema args
      in \<lparr>valid = (errs = []), errors = errs\<rparr>)"

section \<open>PromptParameterValidator\<close>

text \<open>
  The platform's part of the checks is a parameter: \<open>toNumber\<close> is the conversion a
  comparison with a number applies to a value that is not a number (\<open>None\<close> is NaN,
  and every comparison with NaN is false); \<open>regexTest p v\<close> is
  \<open>new RegExp(p).test(v)\<close>, which throws a SyntaxError on a malformed pattern.
\<close>

record validator_env =
  toNumber :: "jsval \<Rightarrow> rat option"
  regexTest :: "string \<Rightarrow> jsval \<Rightarrow> js_error + bool"

definition numLess :: "validator_env \<Rightarrow> jsval \<Rightarrow> rat \<Rightarrow> bool" where
  "numLess env v m =
     (case v of
        JNum r \<Rightarrow> r < m
      | _ \<Rightarrow> (case toNumber env v of Some r \<Rightarrow> r < m | None \<Rightarrow> False))"

definition numGreater :: "validator_env \<Rightarrow> jsval \<Rightarrow> rat \<Rightarrow> bool" where
  "numGreater env v m =
     (case v of
        JNum r \<Rightarrow> r > m
      | _ \<Rightarrow> (case toNumber env v of Some r \<Rightarrow> r > m | None \<Rightarrow> False))"

text \<open>
  \<open>schema.enum.includes(value)\<close> compares by SameValueZero: primitives by value, an
  array or an object by identity, and an argument is never the schema's own object.
\<close>

definition sameValueZero :: "jsval \<Rightarrow> jsval \<Rightarrow> bool" where
  "sameValueZero a b =
     (case a of
        JArr xs \<Rightarrow> False
      | JObj kvs \<Rightarrow> False
      | _ \<Rightarrow> a = b)"

definition includesValue :: "jsval list \<Rightarrow> jsval \<Rightarrow> bool" where
  "includesValue xs v = list_ex (\<lambda>x. sameValueZero x v) xs"

text \<open>
  \<open>value.length\<close>: a TypeError on \<open>undefined\<close> and \<open>null\<close>, the length of a string or
  an array, an object's own property of that name, \<open>undefined\<close> otherwise.
\<close>

fun jsLength :: "jsval \<Rightarrow> js_error + jsval" where
  "jsLength JUndefined = Inl TypeError"
| "jsLength JNull = Inl TypeError"
| "jsLength (JStr s) = Inr (JNum (of_nat (length s)))"
| "jsLength (JArr xs) = Inr (JNum (of_nat (length xs)))"
| "jsLength (JObj kvs) = Inr (case map_of kvs ''length'' of Some v \<Rightarrow> v | None \<Rightarrow> JUndefined)"
| "jsLength (JBool b) = Inr JUndefined"
| "jsLength (JNum r) = Inr JUndefined"

definition typeCheck :: "string \<Rightarrow> jsval \<Rightarrow> JSONSchema \<Rightarrow> finding list" where
  "typeCheck name v schema =
     (case s_type schema of
        Some t \<Rightarrow> if t \<noteq> [] \<and> typeof v \<noteq> t then [ExpectedType name t (typeof v)] else []
      | None \<Rightarrow> [])"

definition enumCheck :: "string \<Rightarrow> jsval \<Rightarrow> JSONSchema \<Rightarrow> finding list" where
  "enumCheck name v schema =
     (case s_enum schema of
        Some allowed \<Rightarrow> if \<not> includesValue allowed v then [NotAllowed name allowed] else []
      | None \<Rightarrow> [])"

definition rangeCheck :: "validator_env \<Rightarrow> string \<Rightarrow> jsval \<Rightarrow> JSONSchema \<Rightarrow> finding list" where
  "rangeCheck env name v schema =
     (if s_type schema = Some ''number'' \<or> s_type schema = Some ''integer'' then
        (case s_minimum schema of
           Some m \<Rightarrow> if numLess env v m then [BelowMinimum name m] else []
         | None \<Rightarrow> []) @
        (case s_maximum schema of
           Some m \<Rightarrow> if numGreater env v m then [AboveMaximum name m] else []
         | None \<Rightarrow> [])
      else [])"

definition minLengthCheck ::
  "validator_env \<Rightarrow> string \<Rightarrow> jsval \<Rightarrow> JSONSchema \<Rightarrow> js_error + finding list" where
  "minLengthCheck env name v schema =
     (case s_minLength schema of
        None \<Rightarrow> Inr []
      | Some m \<Rightarrow>
          (case jsLength v of
             Inl e \<Rightarrow> Inl e
           | Inr len \<Rightarrow> Inr (if numLess env len m then [LengthBelowMinimum name m] else [])))"

definition maxLengthCheck ::
  "validator_env \<Rightarrow> string \<Rightarrow> jsval \<Rightarrow> JSONSchema \<Rightarrow> js_error + finding list" where
  "maxLengthCheck env name v schema =
     (case s_maxLength schema of
        None \<Rightarrow> Inr []
      | Some m \<Rightarrow>
          (case jsLength v of
             Inl e \<Rightarrow> Inl e
           | Inr len \<Rightarrow> Inr (if numGreater env len m then [LengthAboveMaximum name m] else [])))"

definition patternCheck ::
  "validator_env \<Rightarrow> string \<Rightarrow> jsval \<Rightarrow> JSONSchema \<Rightarrow> js_error + finding list" where
  "patternCheck env name v schema =
     (case s_pattern schema of
        None \<Rightarrow> Inr []
      | Some p \<Rightarrow>
          (if p = [] then Inr []
           else (case regexTest env p v of
                   Inl e \<Rightarrow> Inl e
                 | Inr ok \<Rightarrow> Inr (if \<not> ok then [PatternFailed name] else []))))"

text \<open>The three checks of the \<open>schema.type === 'string'\<close> block, in order; the first
  exception ends the call.\<close>

definition stringChecks ::
  "validator_env \<Rightarrow> string \<Rightarrow> jsval \<Rightarrow> JSONSchema \<Rightarrow> js_error + finding list" where
  "stringChecks env name v schema =
     (if s_type schema = Some ''string'' then
        (case minLengthCheck env name v schema of
           Inl e \<Rightarrow> Inl e
         | Inr a \<Rightarrow>
             (case maxLengthCheck env name v schema of
                Inl e \<Rightarrow> Inl e
              | Inr b \<Rightarrow>
                  (case patternCheck env name v schema of
                     Inl e \<Rightarrow> Inl e
                   | Inr c \<Rightarrow> Inr (a @ b @ c))))
      else Inr [])"

definition validateParameter ::
  "validator_env \<Rightarrow> string \<Rightarrow> jsval \<Rightarrow> JSONSchema \<Rightarrow> js_error + finding list" where
  "validateParameter env name v schema =
     (case stringChecks env name v schema of
        Inl e \<Rightarrow> Inl e
      | Inr s \<Rightarrow>
          Inr (typeCheck name v schema @ enumCheck name v schema @
               rangeCheck env name v schema @ s))"

record PromptDefinition =
  p_name :: string
  parametersSchema :: "ObjectSchema option"

text \<open>The loop over \<open>Object.entries(params)\<close>.\<close>

fun parameterLoop ::
  "validator_env \<Rightarrow> ObjectSchema \<Rightarrow> (string \<times> jsval) list \<Rightarrow> js_error + finding list" where
  "parameterLoop env schema [] = Inr []"
| "parameterLoop env schema ((param, v) # rest) =
     (case propertySchema schema param of
        Some paramSchema \<Rightarrow>
          (case validateParameter env param v paramSchema of
             Inl e \<Rightarrow> Inl e
           | Inr paramErrors \<Rightarrow>
               (case parameterLoop env schema rest of
                  Inl e \<Rightarrow> Inl e
                | Inr others \<Rightarrow> Inr (paramErrors @ others)))
      | None \<Rightarrow>
          (case parameterLoop env schema rest of
             Inl e \<Rightarrow> Inl e
           | Inr others \<Rightarrow>
               Inr (if \<not> additionalProperties schema then UnknownParameter param # others
                    else others)))"

definition validateParameters ::
  "validator_env \<Rightarrow> PromptDefinition \<Rightarrow> (string \<times> jsval) list
     \<Rightarrow> js_error + ValidationResult" where
  "validateParameters env prompt params =
     (case parametersSchema prompt of
        None \<Rightarrow> Inr \<lparr>valid = True, errors = []\<rparr>
      | Some schema \<Rightarrow>
          (case parameterLoop env schema params of
             Inl e \<Rightarrow> Inl e
           | Inr found \<Rightarrow>
               (let errs = checkRequired schema params @ found
                in Inr \<lparr>valid = (errs = []), errors = errs\<rparr>)))"

section \<open>ToolCacheManager\<close>

record CachedTool =
  c_tool :: Tool
  c_timestamp :: int
  c_ttl :: int

definition staticCacheTTL :: int where
  "staticCacheTTL = 3600000"

definition dynamicCacheTTL :: int where
  "dynamicCacheTTL = 300000"

text \<open>\<open>tool.static ? this.staticCacheTTL : this.dynamicCacheTTL\<close>.\<close>

definition ttlOf :: "Tool \<Rightarrow> int" where
  "ttlOf tool = (if t_static tool then staticCacheTTL else dynamicCacheTTL)"

text \<open>What goes over the wire: the fetch of a tool definition, or a request.\<close>

record RPCRequest =
  r_id :: jsval
  r_method :: string
  r_params :: jsval

datatype transmission = FetchTool string | Request RPCRequest

text \<open>
  The client's state: the cache of \<open>ToolCacheManager\<close> (a private field, written by
  \<open>getTool\<close> only), the transmissions made so far, and the counter behind
  \<open>generateRequestId\<close>.
\<close>

record client =
  cache :: "string \<Rightarrow> CachedTool option"
  wire :: "transmission list"
  nextId :: nat

text \<open>
  \<open>fetchToolFromServer\<close> is called but not given in the source: a parameter.
  \<open>fetch name now\<close> is the answer to a fetch started at \<open>now\<close>, with the clock's
  reading when it arrives.
\<close>

type_synonym fetcher = "string \<Rightarrow> int \<Rightarrow> (js_error + Tool) \<times> int"

definition isCacheExpired :: "int \<Rightarrow> CachedTool \<Rightarrow> bool" where
  "isCacheExpired now cached = (now - c_timestamp cached > c_ttl cached)"

text \<open>The second half of \<open>getTool\<close>: the fetch, and \<open>this.cache.set\<close> when it succeeds.\<close>

definition fetchAndStore :: "fetcher \<Rightarrow> string \<Rightarrow> int \<Rightarrow> client \<Rightarrow> (js_error + Tool) \<times> client" where
  "fetchAndStore fetchToolFromServer name now st =
     (case fetchToolFromServer name now of
        (Inl e, arrived) \<Rightarrow> (Inl e, st\<lparr>wire := wire st @ [FetchTool name]\<rparr>)
      | (Inr tool, arrived) \<Rightarrow>
          (Inr tool,
           st\<lparr>wire := wire st @ [FetchTool name],
              cache := (cache st)(name \<mapsto>
                \<lparr>c_tool = tool, c_timestamp = arrived, c_ttl = ttlOf tool\<rparr>)\<rparr>))"

definition getTool ::
  "fetcher \<Rightarrow> string \<Rightarrow> bool \<Rightarrow> int \<Rightarrow> client \<Rightarrow> (js_error + Tool) \<times> client" where
  "getTool fetchToolFromServer name forceRefresh now st =
     (case cache st name of
        Some cached \<Rightarrow>
          (if \<not> forceRefresh \<and> \<not> isCacheExpired now cached then (Inr (c_tool cached), st)
           else fetchAndStore fetchToolFromServer name now st)
      | None \<Rightarrow> fetchAndStore fetchToolFromServer name now st)"

section \<open>QualityToolExecutor.callTool\<close>

text \<open>
  What \<open>callTool\<close> calls without the source giving it: \<open>getToolDefinition\<close>, the
  session's \<open>request\<close> raced against the timeout (\<open>Inl TimeoutError\<close> when the timeout
  wins), \<open>checkType\<close>, the executor's own \<open>sanitizeArguments(args)\<close> and
  \<open>processToolResponse\<close>. They are parameters.
\<close>

record tool_env =
  getToolDefinition :: "string \<Rightarrow> int \<Rightarrow> client \<Rightarrow> (js_error + Tool) \<times> client"
  request :: "RPCRequest \<Rightarrow> js_error + jsval"
  checkType :: "string \<Rightarrow> jsval \<Rightarrow> JSONSchema \<Rightarrow> string option"
  sanitizeArgs :: "(string \<times> jsval) list \<Rightarrow> jsval"
  processToolResponse :: "jsval \<Rightarrow> Tool \<Rightarrow> js_error + jsval"

text \<open>\<open>ToolErrorHandler.handleExecutionError\<close>: the code of the error it builds.\<close>

definition handleExecutionError :: "js_error \<Rightarrow> js_error" where
  "handleExecutionError e =
     (case e of
        TimeoutError \<Rightarrow> ToolError 5000
      | PermissionError m \<Rightarrow> ToolError 6000
      | _ \<Rightarrow> ToolError 5001)"

definition callRequest :: "tool_env \<Rightarrow> Tool \<Rightarrow> (string \<times> jsval) list \<Rightarrow> nat \<Rightarrow> RPCRequest" where
  "callRequest env tool args n =
     \<lparr>r_id = JNum (of_nat n), r_method = ''tools/call'',
      r_params = JObj [(''name'', JStr (t_name tool)), (''arguments'', sanitizeArgs env args)]\<rparr>"

definition callTool ::
  "tool_env \<Rightarrow> string \<Rightarrow> (string \<times> jsval) list \<Rightarrow> int \<Rightarrow> client \<Rightarrow> (js_error + jsval) \<times> client" where
  "callTool env name args now st =
     (case getToolDefinition env name now st of
        (Inl e, st1) \<Rightarrow> (Inl e, st1)
      | (Inr tool, st1) \<Rightarrow>
          (let validation = validateArguments (checkType env) tool args in
           if \<not> valid validation then (Inl (ValidationError (errors validation)), st1)
           else
             (let req = callRequest env tool args (nextId st1);
                  st2 = st1\<lparr>nextId := nextId st1 + 1, wire := wire st1 @ [Request req]\<rparr>
              in case request env req of
                   Inl e \<Rightarrow> (Inl (handleExecutionError e), st2)
                 | Inr response \<Rightarrow>
                     (case processToolResponse env response tool of
                        Inl e \<Rightarrow> (Inl (handleExecutionError e), st2)
                      | Inr result \<Rightarrow> (Inr result, st2)))))"

text \<open>
  Modelled from the spec: no \<open>getToolDefinition\<close> is in the source. The spec's first
  step of a call is "Resolve the capability definition (cache or fresh discovery)",
  which is \<open>ToolCacheManager.getTool\<close> without a forced refresh.
\<close>

definition resolveThroughCache :: "fetcher \<Rightarrow> tool_env \<Rightarrow> tool_env" where
  "resolveThroughCache fetchToolFromServer env =
     env\<lparr>getToolDefinition := (\<lambda>name now st. getTool fetchToolFromServer name False now st)\<rparr>"

section \<open>ToolAccessController\<close>

text \<open>
  \<open>getUserPermissions\<close>, \<open>checkRateLimit\<close> and \<open>checkResourceQuota\<close> are called but
  not given in the source. They are parameters that read and change a state of their
  own (the counters of a rate limit are such a state).
\<close>

record ExecutionContext =
  userId :: string

record 's access_env =
  permissionMap :: "string \<Rightarrow> string list option"
  getUserPermissions :: "string \<Rightarrow> 's \<Rightarrow> string list \<times> 's"
  checkRateLimit :: "string \<Rightarrow> ExecutionContext \<Rightarrow> 's \<Rightarrow> bool \<times> 's"
  checkResourceQuota :: "string \<Rightarrow> ExecutionContext \<Rightarrow> 's \<Rightarrow> bool \<times> 's"

definition checkToolAccess ::
  "'s access_env \<Rightarrow> string \<Rightarrow> ExecutionContext \<Rightarrow> 's \<Rightarrow> bool \<times> 's" where
  "checkToolAccess env toolName context s =
     (let requiredPermissions = (case permissionMap env toolName of Some ps \<Rightarrow> ps | None \<Rightarrow> [])
      in if length requiredPermissions = 0 then (True, s)
         else (case getUserPermissions env (userId context) s of
                 (userPermissions, s') \<Rightarrow>
                   (list_all (\<lambda>perm. perm \<in> set userPermissions) requiredPermissions, s')))"

text \<open>The checks a call of \<open>validateToolExecution\<close> ran, in the order it ran them.\<close>

datatype access_check = AccessCheck | RateLimitCheck | QuotaCheck

definition validateToolExecution ::
  "'s access_env \<Rightarrow> string \<Rightarrow> ExecutionContext \<Rightarrow> 's
     \<Rightarrow> (js_error + unit) \<times> access_check list \<times> 's" where
  "validateToolExecution env toolName context s =
     (case checkToolAccess env toolName context s of
        (hasAccess, s1) \<Rightarrow>
          if \<not> hasAccess then (Inl (PermissionError toolName), [AccessCheck], s1)
          else
            (case checkRateLimit env toolName context s1 of
               (isRateLimited, s2) \<Rightarrow>
                 if isRateLimited then
                   (Inl (RateLimitError toolName), [AccessCheck, RateLimitCheck], s2)
                 else
                   (case checkResourceQuota env toolName context s2 of
                      (hasQuota, s3) \<Rightarrow>
                        if \<not> hasQuota then
                          (Inl (QuotaError toolName),
                           [AccessCheck, RateLimitCheck, QuotaCheck], s3)
                        else (Inr (), [AccessCheck, RateLimitCheck, QuotaCheck], s3))))"

section \<open>MessageHandler\<close>

text \<open>
  \<open>message.jsonrpc\<close>: a TypeError on \<open>null\<close>, an object's own property, \<open>undefined\<close>
  on every other value \<open>JSON.parse\<close> returns.
\<close>

fun readJsonrpc :: "jsval \<Rightarrow> js_error + jsval" where
  "readJsonrpc JUndefined = Inl TypeError"
| "readJsonrpc JNull = Inl TypeError"
| "readJsonrpc (JObj kvs) = Inr (case map_of kvs ''jsonrpc'' of Some v \<Rightarrow> v | None \<Rightarrow> JUndefined)"
| "readJsonrpc (JBool b) = Inr JUndefined"
| "readJsonrpc (JNum r) = Inr JUndefined"
| "readJsonrpc (JStr s) = Inr JUndefined"
| "readJsonrpc (JArr xs) = Inr JUndefined"

definition validateMessage :: "jsval \<Rightarrow> js_error + unit" where
  "validateMessage message =
     (case readJsonrpc message of
        Inl e \<Rightarrow> Inl e
      | Inr v \<Rightarrow> if v \<noteq> JStr ''2.0'' then Inl (Error ''Invalid JSON-RPC version'') else Inr ())"

text \<open>\<open>JSON.parse\<close> is the platform's and a parameter; it throws a SyntaxError.\<close>

definition deserialize :: "(string \<Rightarrow> js_error + jsval) \<Rightarrow> string \<Rightarrow> js_error + jsval" where
  "deserialize JSON_parse data =
     (case JSON_parse data of
        Inl e \<Rightarrow> Inl e
      | Inr message \<Rightarrow>
          (case validateMessage message of
             Inl e \<Rightarrow> Inl e
           | Inr u \<Rightarrow> Inr message))"

text \<open>
  The envelope invariant in the spec's words: exactly one of "method present" and
  "result xor error present" holds.
\<close>

definition present :: "jsval \<Rightarrow> string \<Rightarrow> bool" where
  "present message k = (case message of JObj kvs \<Rightarrow> map_of kvs k \<noteq> None | _ \<Rightarrow> False)"

definition envelopeInvariant :: "jsval \<Rightarrow> bool" where
  "envelopeInvariant message =
     (present message ''method'' \<noteq> (present message ''result'' \<noteq> present message ''error''))"

section \<open>ConnectionManager\<close>

datatype ConnectionState = DISCONNECTED | CONNECTING | CONNECTED | ERROR | RECONNECTING

record ConnectionManager =
  state :: ConnectionState
  reconnectAttempts :: nat
  maxReconnectAttempts :: nat

definition newConnectionManager :: ConnectionManager where
  "newConnectionManager = \<lparr>state = DISCONNECTED, reconnectAttempts = 0, maxReconnectAttempts = 5\<rparr>"

record ConnectionConfig =
  transport :: string

text \<open>
  The three transports' connect methods and \<open>handleConnectionError\<close> are called but not
  given in the source: parameters. A \<open>switch\<close> without a matching case falls through,
  and \<open>establishConnection\<close> returns normally.
\<close>

record connection_env =
  connectStdio :: "ConnectionConfig \<Rightarrow> js_error + unit"
  connectSSE :: "ConnectionConfig \<Rightarrow> js_error + unit"
  connectWebSocket :: "ConnectionConfig \<Rightarrow> js_error + unit"
  handleConnectionError :: "js_error \<Rightarrow> ConnectionManager \<Rightarrow> ConnectionManager"

definition establishConnection :: "connection_env \<Rightarrow> ConnectionConfig \<Rightarrow> js_error + unit" where
  "establishConnection env config =
     (if transport config = ''stdio'' then connectStdio env config
      else if transport config = ''sse'' then connectSSE env config
      else if transport config = ''websocket'' then connectWebSocket env config
      else Inr ())"

text \<open>\<open>connect\<close>, with the values it assigns to \<open>this.state\<close> itself, in order.\<close>

definition connect ::
  "connection_env \<Rightarrow> ConnectionConfig \<Rightarrow> ConnectionManager
     \<Rightarrow> ConnectionState list \<times> ConnectionManager" where
  "connect env config m =
     (let m1 = m\<lparr>state := CONNECTING\<rparr> in
      case establishConnection env config of
        Inr u \<Rightarrow> ([CONNECTING, CONNECTED], m1\<lparr>state := CONNECTED, reconnectAttempts := 0\<rparr>)
      | Inl e \<Rightarrow> ([CONNECTING], handleConnectionError env e m1))"

text \<open>The connection states and the path of a successful connect in the spec's words.\<close>

datatype SpecConnectionState =
  Disconnected | Connecting | Negotiating | Ready | Degraded | Closing | Closed

definition specConnectPath :: "SpecConnectionState list" where
  "specConnectPath = [Disconnected, Connecting, Negotiating, Ready]"

section \<open>MessageBatcher\<close>

text \<open>
  What the promise of an \<open>async\<close> method settles to: a method that ends without a
  \<open>return\<close> fulfils its promise with \<open>undefined\<close>.
\<close>

datatype 'r settled = Undefined | Fulfilled 'r | Rejected js_error

text \<open>
  \<open>createBatchRequest\<close>, \<open>transport.send\<close>, \<open>processBatchResponse\<close> and
  \<open>handleBatchError\<close> are called but not given in the source: parameters.
\<close>

record ('q, 'b, 'p, 'r) batch_env =
  createBatchRequest :: "'q list \<Rightarrow> 'b"
  transportSend :: "'b \<Rightarrow> js_error + 'p"
  processBatchResponse :: "'p \<Rightarrow> 'b \<Rightarrow> js_error + 'r"
  handleBatchError :: "js_error \<Rightarrow> 'b \<Rightarrow> js_error"

text \<open>
  The batcher: the pending \<open>batch\<close>, the number of \<open>setTimeout\<close> callbacks still to
  fire, and what \<open>transport.send\<close> was called with, in order.
\<close>

record ('q, 'b) MessageBatcher =
  batch :: "'q list"
  timers :: nat
  sent :: "'b list"

definition batchSize :: nat where
  "batchSize = 10"

definition newMessageBatcher :: "('q, 'b) MessageBatcher" where
  "newMessageBatcher = \<lparr>batch = [], timers = 0, sent = []\<rparr>"

definition flushBatch ::
  "('q, 'b, 'p, 'r) batch_env \<Rightarrow> ('q, 'b) MessageBatcher
     \<Rightarrow> 'r settled \<times> ('q, 'b) MessageBatcher" where
  "flushBatch env b =
     (let batchRequest = createBatchRequest env (batch b);
          b' = b\<lparr>batch := [], sent := sent b @ [batchRequest]\<rparr>
      in case transportSend env batchRequest of
           Inl e \<Rightarrow> (Rejected (handleBatchError env e batchRequest), b')
         | Inr response \<Rightarrow>
             (case processBatchResponse env response batchRequest of
                Inl e \<Rightarrow> (Rejected (handleBatchError env e batchRequest), b')
              | Inr r \<Rightarrow> (Fulfilled r, b')))"

definition sendMessage ::
  "('q, 'b, 'p, 'r) batch_env \<Rightarrow> 'q \<Rightarrow> ('q, 'b) MessageBatcher
     \<Rightarrow> 'r settled \<times> ('q, 'b) MessageBatcher" where
  "sendMessage env message b =
     (let b1 = b\<lparr>batch := batch b @ [message]\<rparr> in
      if length (batch b1) \<ge> batchSize then flushBatch env b1
      else if length (batch b1) = 1 then (Undefined, b1\<lparr>timers := timers b1 + 1\<rparr>)
      else (Undefined, b1))"

text \<open>A \<open>setTimeout\<close> callback fires: it flushes, and nobody reads its promise.\<close>

definition timerFires ::
  "('q, 'b, 'p, 'r) batch_env \<Rightarrow> ('q, 'b) MessageBatcher \<Rightarrow> ('q, 'b) MessageBatcher" where
  "timerFires env b =
     (if timers b = 0 then b
      else snd (flushBatch env (b\<lparr>timers := timers b - 1\<rparr>)))"

text \<open>
  A run of the batcher: calls of \<open>sendMessage\<close> in their arrival order and the firing
  of the timeout; the result lists what each call's promise settled to.
\<close>

datatype 'q batcher_event = Call 'q | TimerFires

fun runBatcher ::
  "('q, 'b, 'p, 'r) batch_env \<Rightarrow> 'q batcher_event list \<Rightarrow> ('q, 'b) MessageBatcher
     \<Rightarrow> 'r settled list \<times> ('q, 'b) MessageBatcher" where
  "runBatcher env [] b = ([], b)"
| "runBatcher env (Call message # rest) b =
     (case sendMessage env message b of
        (r, b') \<Rightarrow> (case runBatcher env rest b' of (rs, b'') \<Rightarrow> (r # rs, b'')))"
| "runBatcher env (TimerFires # rest) b = runBatcher env rest (timerFires env b)"

section \<open>Concrete inputs\<close>

text \<open>The inputs at which the theorems below are evaluated.\<close>

definition echoTool :: Tool where
  "echoTool = \<lparr>t_name = ''echo'',
     inputSchema = \<lparr>required = Some [''text''],
       properties = Some [(''text'', noFields\<lparr>s_type := Some ''string''\<rparr>)],
       additionalProperties = False\<rparr>,
     t_static = False\<rparr>"

definition echoFetch :: fetcher where
  "echoFetch = (\<lambda>name now. (Inr echoTool, now + 20))"

definition newClient :: client where
  "newClient = \<lparr>cache = (\<lambda>name. None), wire = [], nextId = 1\<rparr>"

text \<open>An access controller whose rate limit and quota count their calls.\<close>

definition countingController :: "string list \<Rightarrow> bool \<Rightarrow> bool \<Rightarrow> (nat \<times> nat) access_env" where
  "countingController granted limited quota =
     \<lparr>permissionMap = (\<lambda>t. if t = ''deploy'' then Some [''ops''] else None),
      getUserPermissions = (\<lambda>u s. (granted, s)),
      checkRateLimit = (\<lambda>t c s. (limited, (fst s + 1, snd s))),
      checkResourceQuota = (\<lambda>t c s. (quota, (fst s, snd s + 1)))\<rparr>"

definition requestWithResult :: jsval where
  "requestWithResult =
     JObj [(''jsonrpc'', JStr ''2.0''), (''id'', JNum 1), (''method'', JStr ''ping''),
           (''result'', JObj [])]"

definition stdioUp :: connection_env where
  "stdioUp = \<lparr>connectStdio = (\<lambda>c. Inr ()), connectSSE = (\<lambda>c. Inl (Error ''refused'')),
     connectWebSocket = (\<lambda>c. Inl (Error ''refused'')),
     handleConnectionError = (\<lambda>e m. m\<lparr>state := ERROR\<rparr>)\<rparr>"

definition titlePrompt :: PromptDefinition where
  "titlePrompt = \<lparr>p_name = ''title'',
     parametersSchema = Some \<lparr>required = None,
       properties = Some [(''s'', noFields\<lparr>s_type := Some ''string'', s_minLength := Some 1\<rparr>)],
       additionalProperties = False\<rparr>\<rparr>"

text \<open>A schema with two constraints on one number, for a tool and for a prompt.\<close>

definition levelSchema :: ObjectSchema where
  "levelSchema = \<lparr>required = None,
     properties = Some [(''level'',
       noFields\<lparr>s_type := Some ''number'', s_enum := Some [JNum 1, JNum 2, JNum 3],
         s_maximum := Some 10\<rparr>)],
     additionalProperties = False\<rparr>"

section \<open>The string sanitizers\<close>

lemma set_replaceLineBreaks:
  "set (replaceLineBreaks s) \<subseteq> (set s - {CHR 0x0D, CHR 0x0A}) \<union> {CHR '' ''}"
  by (induction s rule: replaceLineBreaks.induct) auto

lemma replaceLineBreaks_id:
  "CHR 0x0D \<notin> set s \<Longrightarrow> CHR 0x0A \<notin> set s \<Longrightarrow> replaceLineBreaks s = s"
  by (induction s rule: replaceLineBreaks.induct) auto

lemma set_trim: "set (trim s) \<subseteq> set s"
  unfolding trim_def
  by (metis set_dropWhileD set_rev subsetI)

lemma trim_idem: "trim (trim s) = trim s"
proof -
  define t where "t = dropWhile whiteSpace s"
  define u where "u = rev (dropWhile whiteSpace (rev t))"
  have tu: "t = u @ rev (takeWhile whiteSpace (rev t))"
    by (metis u_def rev_append rev_rev_ident takeWhile_dropWhile_id)
  have "dropWhile whiteSpace u = u"
  proof (cases u)
    case Nil
    then show ?thesis by simp
  next
    case (Cons a as)
    then have "t = a # (as @ rev (takeWhile whiteSpace (rev t)))"
      using tu by simp
    then have "t \<noteq> []" and "hd t = a"
      by (metis list.distinct(1), metis list.sel(1))
    then have "\<not> whiteSpace a"
      using hd_dropWhile [of whiteSpace s] by (simp add: t_def)
    then show ?thesis using Cons by simp
  qed
  moreover have "dropWhile whiteSpace (rev u) = rev u"
    by (simp add: u_def dropWhile_idem)
  ultimately show ?thesis
    by (simp add: trim_def t_def [symmetric] u_def [symmetric])
qed

lemma sanitizeText_chars:
  "set (sanitizeText x) \<subseteq> {c. \<not> dangerous c \<and> c \<noteq> CHR 0x0D \<and> c \<noteq> CHR 0x0A}"
proof -
  have "set (sanitizeText x) \<subseteq> set (replaceLineBreaks (filter (\<lambda>c. \<not> dangerous c) x))"
    by (simp add: sanitizeText_def set_trim)
  also have "\<dots> \<subseteq> (set (filter (\<lambda>c. \<not> dangerous c) x) - {CHR 0x0D, CHR 0x0A}) \<union> {CHR '' ''}"
    by (rule set_replaceLineBreaks)
  also have "\<dots> \<subseteq> {c. \<not> dangerous c \<and> c \<noteq> CHR 0x0D \<and> c \<noteq> CHR 0x0A}"
    by (auto simp: dangerous_def)
  finally show ?thesis .
qed

lemma sanitizeText_idem: "sanitizeText (sanitizeText x) = sanitizeText x"
proof -
  let ?y = "sanitizeText x"
  have clean: "filter (\<lambda>c. \<not> dangerous c) ?y = ?y"
    using sanitizeText_chars [of x] by (intro filter_True) auto
  have "CHR 0x0D \<notin> set ?y" and "CHR 0x0A \<notin> set ?y"
    using sanitizeText_chars [of x] by auto
  then have "replaceLineBreaks ?y = ?y"
    by (rule replaceLineBreaks_id)
  moreover have "trim ?y = ?y"
    by (simp add: sanitizeText_def trim_idem)
  ultimately show ?thesis
    using clean by (simp add: sanitizeText_def [of ?y])
qed

text \<open>
  Claim C10. The string sanitizer is idempotent: for every string \<open>x\<close>,
  \<open>sanitizeString(sanitizeString(x)) = sanitizeString(x)\<close>, and its output contains
  none of the characters \<open><\<close>, \<open>>\<close>, the double quote and the single quote. The same
  holds of \<open>sanitizeText\<close>, the prompt sanitizer's default.
\<close>

theorem sanitizeString_idempotent_clean:
  "sanitizeString env (JStr (sanitizeString env (JStr x))) = sanitizeString env (JStr x)
   \<and> CHR ''<'' \<notin> set (sanitizeString env (JStr x))
   \<and> CHR ''>'' \<notin> set (sanitizeString env (JStr x))
   \<and> CHR 0x22 \<notin> set (sanitizeString env (JStr x))
   \<and> CHR 0x27 \<notin> set (sanitizeString env (JStr x))
   \<and> sanitizeText (sanitizeText x) = sanitizeText x
   \<and> CHR ''<'' \<notin> set (sanitizeText x)
   \<and> CHR ''>'' \<notin> set (sanitizeText x)
   \<and> CHR 0x22 \<notin> set (sanitizeText x)
   \<and> CHR 0x27 \<notin> set (sanitizeText x)"
proof -
  have "\<not> dangerous c" if "c \<in> set (sanitizeText x)" for c
    using that sanitizeText_chars [of x] by auto
  then have "CHR ''<'' \<notin> set (sanitizeText x)" "CHR ''>'' \<notin> set (sanitizeText x)"
    "CHR 0x22 \<notin> set (sanitizeText x)" "CHR 0x27 \<notin> set (sanitizeText x)"
    by (auto simp: dangerous_def)
  then show ?thesis
    by (simp add: sanitizeString_def dangerous_def sanitizeText_idem)
qed

section \<open>The argument sanitizer\<close>

lemma setOwn_keys: "fst ` set (setOwn k v kvs) = insert k (fst ` set kvs)"
  by (induction kvs) auto

lemma assignProp_keys: "fst ` set (assignProp k v kvs) \<subseteq> insert k (fst ` set kvs)"
  by (auto simp: assignProp_def setOwn_keys)

lemma sanitizeEntries_keys:
  "fst ` set (sanitizeEntries env schema args acc)
     \<subseteq> fst ` set acc \<union> {k \<in> fst ` set args. propertySchema schema k \<noteq> None}"
proof (induction args arbitrary: acc)
  case Nil
  then show ?case by simp
next
  case (Cons a args)
  obtain k v where a: "a = (k, v)" by (cases a)
  show ?case
  proof (cases "propertySchema schema k")
    case None
    then show ?thesis using Cons [of acc] a by auto
  next
    case (Some ps)
    then show ?thesis
      using Cons [of "assignProp k (sanitizeValue env v ps) acc"] a
        assignProp_keys [of k "sanitizeValue env v ps" acc]
      by auto
  qed
qed

text \<open>
  The sanitizer keeps only keys for which \<open>schema.properties?.[key]\<close> is truthy: the
  declared ones, and the names every plain object inherits.
\<close>

lemma sanitizeArguments_keys:
  "fst ` set (sanitizeArguments env args tool)
     \<subseteq> {k \<in> fst ` set args. propertySchema (inputSchema tool) k \<noteq> None}"
  using sanitizeEntries_keys [of env "inputSchema tool" args "[]"]
  by (simp add: sanitizeArguments_def)

lemma propertySchema_declared_or_inherited:
  "propertySchema schema k \<noteq> None \<Longrightarrow>
     (\<exists>ps. properties schema = Some ps \<and> (k \<in> fst ` set ps \<or> k \<in> set objectPrototypeKeys))"
  by (auto simp: propertySchema_def getProp_def dom_map_of_conv_image_fst [symmetric]
      split: option.splits if_splits)

text \<open>
  Claim C9. For every argument object passed to a tool call, the sanitizer's output
  contains only keys declared in the tool's input schema properties: any argument key
  not declared in the schema is silently dropped before transmission rather than
  rejected with an error. The code at an input where this fails: the tool declares
  \<open>text\<close> only; the undeclared \<open>extra\<close> is dropped, the undeclared \<open>constructor\<close> is
  kept, with its value as it came.
\<close>

theorem sanitizeArguments_keeps_inherited_key:
  "sanitizeArguments env
     [(''constructor'', JStr ''<b>''), (''text'', JStr ''<i>hi''), (''extra'', JNum 1)]
     \<lparr>t_name = ''echo'',
      inputSchema = \<lparr>required = None,
        properties = Some [(''text'', noFields\<lparr>s_type := Some ''string''\<rparr>)],
        additionalProperties = False\<rparr>,
      t_static = False\<rparr>
   = [(''constructor'', JStr ''<b>''), (''text'', JStr ''ihi'')]"
  by (simp add: sanitizeArguments_def propertySchema_def getProp_def objectPrototypeKeys_def
      assignProp_def sanitizeValue_def sanitizeString_def dangerous_def noFields_def)

section \<open>The validators\<close>

lemma requiredLoop_complete:
  "p \<in> set ps \<Longrightarrow> isMissing args p \<Longrightarrow> MissingRequired p \<in> set (requiredLoop args ps)"
  by (induction ps) auto

text \<open>The executor's validator has at most one finding for each argument.\<close>

lemma typeLoop_length: "length (typeLoop ct schema args) \<le> length args"
  by (induction args) (auto split: option.splits)

lemma typeLoop_complete:
  "(k, v) \<in> set args \<Longrightarrow> propertySchema schema k = Some ps \<Longrightarrow> ct k v ps = Some e
     \<Longrightarrow> e \<noteq> [] \<Longrightarrow> CheckTypeText e \<in> set (typeLoop ct schema args)"
  by (induction args) (auto split: option.splits)

text \<open>
  When the executor's validator rejects the arguments, \<open>callTool\<close> raises the one
  ValidationError with all the findings and sends no request of its own: the state is
  as the resolution of the tool's definition left it.
\<close>

lemma callTool_validation_error:
  assumes "getToolDefinition env name now st = (Inr tool, st1)"
    and "\<not> valid (validateArguments (checkType env) tool args)"
  shows "callTool env name args now st
           = (Inl (ValidationError (errors (validateArguments (checkType env) tool args))), st1)"
  using assms by (simp add: callTool_def)

text \<open>
  With the definition in the cache and not expired, nothing at all is transmitted for a
  call that the validator rejects.
\<close>

lemma callTool_invalid_sends_nothing:
  assumes "cache st name = Some cached" and "\<not> isCacheExpired now cached"
    and "\<not> valid (validateArguments (checkType env) (c_tool cached) args)"
  shows "callTool (resolveThroughCache fetch env) name args now st
           = (Inl (ValidationError
                (errors (validateArguments (checkType env) (c_tool cached) args))), st)"
  using assms by (simp add: callTool_def resolveThroughCache_def getTool_def)

text \<open>
  When the prompt validator returns, the findings of every declared parameter are in
  its list.
\<close>

lemma parameterLoop_complete:
  "parameterLoop env schema params = Inr found \<Longrightarrow> (k, v) \<in> set params
     \<Longrightarrow> propertySchema schema k = Some ps
     \<Longrightarrow> \<exists>es. validateParameter env k v ps = Inr es \<and> set es \<subseteq> set found"
proof (induction params arbitrary: found)
  case Nil
  then show ?case by simp
next
  case (Cons a params)
  obtain k' v' where a: "a = (k', v')" by (cases a)
  from Cons.prems(1) a
  have "\<exists>others. parameterLoop env schema params = Inr others \<and> set others \<subseteq> set found"
    by (auto split: option.splits sum.splits if_splits)
  then obtain others where
    rest: "parameterLoop env schema params = Inr others" and sub: "set others \<subseteq> set found"
    by blast
  show ?case
  proof (cases "(k, v) = a")
    case True
    with Cons.prems a show ?thesis
      by (auto split: sum.splits)
  next
    case False
    with Cons.prems(2) have "(k, v) \<in> set params" by simp
    from Cons.IH [OF rest this Cons.prems(3)] sub show ?thesis by blast
  qed
qed

text \<open>The spec's example: a number and an enumeration, both violated, two findings.\<close>

lemma validateParameters_two_findings:
  "validateParameters env
     \<lparr>p_name = ''op'',
      parametersSchema = Some \<lparr>required = Some [''a'', ''b''],
        properties = Some [(''a'', noFields\<lparr>s_type := Some ''number''\<rparr>),
                           (''b'', noFields\<lparr>s_enum := Some [JStr ''x'', JStr ''y'']\<rparr>)],
        additionalProperties = False\<rparr>\<rparr>
     [(''a'', JStr ''not-a-number''), (''b'', JStr ''z'')]
   = Inr \<lparr>valid = False,
          errors = [ExpectedType ''a'' ''number'' ''string'',
                    NotAllowed ''b'' [JStr ''x'', JStr ''y'']]\<rparr>"
  by (simp add: validateParameters_def checkRequired_def isMissing_def propertySchema_def
      getProp_def validateParameter_def stringChecks_def typeCheck_def enumCheck_def
      rangeCheck_def includesValue_def sameValueZero_def noFields_def)

text \<open>
  Claim C1. For every call of an operation whose arguments violate the declared schema,
  the executor raises exactly one ValidationError whose list contains every violation
  (required presence, type match, enum membership, numeric range, string
  length/pattern), and zero requests are transmitted on the wire for that call. The
  code at inputs where this fails: the prompt validator, given \<open>null\<close> for a string
  parameter with a minimal length, throws a TypeError and returns no list; and the
  executor's validator has at most one finding for an argument that is outside its
  enumeration and above its maximum, where the prompt validator lists both.
\<close>

theorem validators_miss_violations:
  "validateParameters env titlePrompt [(''s'', JNull)] = Inl TypeError
   \<and> length (errors (validateArguments ct
         \<lparr>t_name = ''setLevel'', inputSchema = levelSchema, t_static = False\<rparr>
         [(''level'', JNum 100)])) \<le> 1
   \<and> validateParameters env \<lparr>p_name = ''setLevel'', parametersSchema = Some levelSchema\<rparr>
         [(''level'', JNum 100)]
       = Inr \<lparr>valid = False,
              errors = [NotAllowed ''level'' [JNum 1, JNum 2, JNum 3],
                        AboveMaximum ''level'' 10]\<rparr>"
proof -
  have "validateParameters env titlePrompt [(''s'', JNull)] = Inl TypeError"
    by (simp add: validateParameters_def titlePrompt_def propertySchema_def getProp_def
        validateParameter_def stringChecks_def minLengthCheck_def noFields_def)
  moreover have "length (errors (validateArguments ct
         \<lparr>t_name = ''setLevel'', inputSchema = levelSchema, t_static = False\<rparr>
         [(''level'', JNum 100)])) \<le> 1"
  proof -
    have "required levelSchema = None"
      by (simp add: levelSchema_def)
    then show ?thesis
      using typeLoop_length [of ct levelSchema "[(''level'', JNum 100)]"]
      by (simp add: validateArguments_def checkRequired_def del: typeLoop.simps)
  qed
  moreover have "validateParameters env
         \<lparr>p_name = ''setLevel'', parametersSchema = Some levelSchema\<rparr> [(''level'', JNum 100)]
       = Inr \<lparr>valid = False,
              errors = [NotAllowed ''level'' [JNum 1, JNum 2, JNum 3],
                        AboveMaximum ''level'' 10]\<rparr>"
    by (simp add: validateParameters_def checkRequired_def levelSchema_def propertySchema_def
        getProp_def validateParameter_def stringChecks_def typeCheck_def enumCheck_def
        rangeCheck_def numLess_def numGreater_def includesValue_def sameValueZero_def
        noFields_def)
  ultimately show ?thesis by simp
qed

section \<open>The tool cache\<close>

lemma fetchAndStore_ok:
  "fetch name now = (Inr tool, arrived) \<Longrightarrow>
     fetchAndStore fetch name now st
       = (Inr tool,
          st\<lparr>wire := wire st @ [FetchTool name],
             cache := (cache st)(name \<mapsto> \<lparr>c_tool = tool, c_timestamp = arrived,
                c_ttl = ttlOf tool\<rparr>)\<rparr>)"
  by (simp add: fetchAndStore_def)

lemma fetchAndStore_wire:
  "wire (snd (fetchAndStore fetch name now st)) = wire st @ [FetchTool name]"
  by (simp add: fetchAndStore_def split: prod.splits sum.splits)

lemma getTool_cases:
  "getTool fetch name force now st = fetchAndStore fetch name now st
   \<or> (\<exists>cached. cache st name = Some cached \<and> \<not> force \<and> \<not> isCacheExpired now cached
        \<and> getTool fetch name force now st = (Inr (c_tool cached), st))"
  by (auto simp: getTool_def split: option.splits)

text \<open>
  Claim C4, as amended. After a read of a tool that went to the server and succeeded
  (one transmission), a second read of the same name that does not force a refresh and
  comes no later than the entry's TTL after the answer arrived is answered from the
  cache with no transmission; a read after the TTL has elapsed, and a read that forces a
  refresh at any time, each issue exactly one fresh transmission.
\<close>

theorem getTool_ttl:
  assumes first: "getTool fetch name force t1 st = (Inr tool, st1)"
    and miss: "wire st1 \<noteq> wire st"
    and arrived: "arrived = snd (fetch name t1)"
  shows "wire st1 = wire st @ [FetchTool name]
    \<and> (t2 - arrived \<le> ttlOf tool \<longrightarrow> getTool fetch name False t2 st1 = (Inr tool, st1))
    \<and> (t2 - arrived > ttlOf tool \<longrightarrow>
         wire (snd (getTool fetch name False t2 st1)) = wire st1 @ [FetchTool name])
    \<and> wire (snd (getTool fetch name True t2 st1)) = wire st1 @ [FetchTool name]"
proof -
  from getTool_cases [of fetch name force t1 st] first miss
  have fs: "fetchAndStore fetch name t1 st = (Inr tool, st1)"
    by auto
  then have fetched: "fetch name t1 = (Inr tool, arrived)"
    using arrived by (auto simp: fetchAndStore_def split: prod.splits sum.splits)
  from fetchAndStore_ok [of fetch name t1 tool arrived st, OF fetched] fs
  have st1: "st1 = st\<lparr>wire := wire st @ [FetchTool name],
             cache := (cache st)(name \<mapsto> \<lparr>c_tool = tool, c_timestamp = arrived,
                c_ttl = ttlOf tool\<rparr>)\<rparr>"
    by simp
  have w: "wire st1 = wire st @ [FetchTool name]"
    by (simp add: st1)
  have c: "cache st1 name = Some \<lparr>c_tool = tool, c_timestamp = arrived, c_ttl = ttlOf tool\<rparr>"
    by (simp add: st1)
  have hit: "getTool fetch name False t2 st1 = (Inr tool, st1)" if "t2 - arrived \<le> ttlOf tool"
    using that by (simp add: getTool_def c isCacheExpired_def)
  have expired: "getTool fetch name False t2 st1 = fetchAndStore fetch name t2 st1"
    if "t2 - arrived > ttlOf tool"
    using that by (simp add: getTool_def c isCacheExpired_def)
  have forced: "getTool fetch name True t2 st1 = fetchAndStore fetch name t2 st1"
    by (simp add: getTool_def c)
  show ?thesis
    using w hit expired forced by (simp add: fetchAndStore_wire)
qed

text \<open>
  The theorem at a dynamic tool fetched at time 0, whose answer arrives at 20: a read at
  300020 is a hit, a read at 300021 a miss.
\<close>

theorem getTool_ttl_witness:
  "wire (snd (getTool echoFetch ''echo'' False 0 newClient)) = [FetchTool ''echo'']
   \<and> fst (getTool echoFetch ''echo'' False 300020
            (snd (getTool echoFetch ''echo'' False 0 newClient)))
       = Inr echoTool
   \<and> wire (snd (getTool echoFetch ''echo'' False 300020
                  (snd (getTool echoFetch ''echo'' False 0 newClient))))
       = [FetchTool ''echo'']
   \<and> wire (snd (getTool echoFetch ''echo'' False 300021
                  (snd (getTool echoFetch ''echo'' False 0 newClient))))
       = [FetchTool ''echo'', FetchTool ''echo'']"
proof -
  let ?st1 = "snd (getTool echoFetch ''echo'' False 0 newClient)"
  have first: "getTool echoFetch ''echo'' False 0 newClient = (Inr echoTool, ?st1)"
    by (simp add: getTool_def fetchAndStore_def echoFetch_def newClient_def)
  have miss: "wire ?st1 \<noteq> wire newClient"
    by (simp add: getTool_def fetchAndStore_def echoFetch_def newClient_def)
  have arrived: "(20::int) = snd (echoFetch ''echo'' 0)"
    by (simp add: echoFetch_def)
  have ttl: "ttlOf echoTool = 300000"
    by (simp add: ttlOf_def echoTool_def dynamicCacheTTL_def)
  have w0: "wire newClient = []"
    by (simp add: newClient_def)
  show ?thesis
    using getTool_ttl [OF first miss arrived, of 300020]
      getTool_ttl [OF first miss arrived, of 300021]
    by (simp add: ttl w0)
qed

text \<open>
  Claim C4 as stated fails: the entry stored at 20 has a TTL of 300000, and a second
  read at 1000 with \<open>forceRefresh\<close> goes to the server again, two transmissions in all.
\<close>

theorem getTool_forced_refresh_within_ttl:
  "cache (snd (getTool echoFetch ''echo'' False 0 newClient)) ''echo''
     = Some \<lparr>c_tool = echoTool, c_timestamp = 20, c_ttl = 300000\<rparr>
   \<and> wire (snd (getTool echoFetch ''echo'' True 1000
                  (snd (getTool echoFetch ''echo'' False 0 newClient))))
     = [FetchTool ''echo'', FetchTool ''echo'']"
  by (simp add: getTool_def fetchAndStore_def echoFetch_def newClient_def echoTool_def
      ttlOf_def dynamicCacheTTL_def)

section \<open>The executor and the cache\<close>



section \<open>The access controller\<close>

lemma access_denied:
  "checkToolAccess (countingController [] l q) ''deploy'' \<lparr>userId = ''u''\<rparr> s = (False, s)"
  by (simp add: checkToolAccess_def countingController_def)

lemma access_granted:
  "checkToolAccess (countingController [''ops''] l q) ''deploy'' \<lparr>userId = ''u''\<rparr> s = (True, s)"
  by (simp add: checkToolAccess_def countingController_def)

text \<open>
  Claim C5. When the access controller evaluates a call, it runs the permission check
  first, then the rate-limit check, then the quota check; the first check that fails
  determines the error raised (\<open>PermissionError\<close>, \<open>RateLimitError\<close> or \<open>QuotaError\<close>)
  and the remaining checks are not executed: the checks run are listed, and the state
  returned is the one the last check run has left.
\<close>

theorem validateToolExecution_order:
  "(\<not> fst (checkToolAccess env t c s) \<longrightarrow>
      validateToolExecution env t c s
        = (Inl (PermissionError t), [AccessCheck], snd (checkToolAccess env t c s)))
   \<and> (fst (checkToolAccess env t c s)
        \<and> fst (checkRateLimit env t c (snd (checkToolAccess env t c s))) \<longrightarrow>
      validateToolExecution env t c s
        = (Inl (RateLimitError t), [AccessCheck, RateLimitCheck],
           snd (checkRateLimit env t c (snd (checkToolAccess env t c s)))))
   \<and> (fst (checkToolAccess env t c s)
        \<and> \<not> fst (checkRateLimit env t c (snd (checkToolAccess env t c s)))
        \<and> \<not> fst (checkResourceQuota env t c
                  (snd (checkRateLimit env t c (snd (checkToolAccess env t c s))))) \<longrightarrow>
      validateToolExecution env t c s
        = (Inl (QuotaError t), [AccessCheck, RateLimitCheck, QuotaCheck],
           snd (checkResourceQuota env t c
                  (snd (checkRateLimit env t c (snd (checkToolAccess env t c s)))))))
   \<and> (fst (checkToolAccess env t c s)
        \<and> \<not> fst (checkRateLimit env t c (snd (checkToolAccess env t c s)))
        \<and> fst (checkResourceQuota env t c
                  (snd (checkRateLimit env t c (snd (checkToolAccess env t c s))))) \<longrightarrow>
      validateToolExecution env t c s
        = (Inr (), [AccessCheck, RateLimitCheck, QuotaCheck],
           snd (checkResourceQuota env t c
                  (snd (checkRateLimit env t c (snd (checkToolAccess env t c s)))))))"
proof -
  obtain hasAccess s1 where access: "checkToolAccess env t c s = (hasAccess, s1)"
    by (cases "checkToolAccess env t c s")
  obtain isRateLimited s2 where rate: "checkRateLimit env t c s1 = (isRateLimited, s2)"
    by (cases "checkRateLimit env t c s1")
  obtain hasQuota s3 where quota: "checkResourceQuota env t c s2 = (hasQuota, s3)"
    by (cases "checkResourceQuota env t c s2")
  show ?thesis
  proof (cases hasAccess)
    case False
    then show ?thesis
      by (simp add: validateToolExecution_def access)
  next
    case True
    then show ?thesis
      by (cases isRateLimited; cases hasQuota)
         (simp_all add: validateToolExecution_def access rate quota)
  qed
qed

text \<open>
  The theorem at the four outcomes, with a rate limit and a quota that count how often
  they were asked: a denied permission leaves both counters at 0, a rate limit reached
  leaves the quota's at 0.
\<close>

theorem validateToolExecution_order_witness:
  "validateToolExecution (countingController [] False True) ''deploy'' \<lparr>userId = ''u''\<rparr> (0, 0)
     = (Inl (PermissionError ''deploy''), [AccessCheck], (0, 0))
   \<and> validateToolExecution (countingController [''ops''] True True) ''deploy''
        \<lparr>userId = ''u''\<rparr> (0, 0)
     = (Inl (RateLimitError ''deploy''), [AccessCheck, RateLimitCheck], (1, 0))
   \<and> validateToolExecution (countingController [''ops''] False False) ''deploy''
        \<lparr>userId = ''u''\<rparr> (0, 0)
     = (Inl (QuotaError ''deploy''), [AccessCheck, RateLimitCheck, QuotaCheck], (1, 1))
   \<and> validateToolExecution (countingController [''ops''] False True) ''deploy''
        \<lparr>userId = ''u''\<rparr> (0, 0)
     = (Inr (), [AccessCheck, RateLimitCheck, QuotaCheck], (1, 1))"
  using validateToolExecution_order
      [of "countingController [] False True" "''deploy''" "\<lparr>userId = ''u''\<rparr>" "(0, 0)"]
    validateToolExecution_order
      [of "countingController [''ops''] True True" "''deploy''" "\<lparr>userId = ''u''\<rparr>" "(0, 0)"]
    validateToolExecution_order
      [of "countingController [''ops''] False False" "''deploy''" "\<lparr>userId = ''u''\<rparr>" "(0, 0)"]
    validateToolExecution_order
      [of "countingController [''ops''] False True" "''deploy''" "\<lparr>userId = ''u''\<rparr>" "(0, 0)"]
  by (simp add: access_denied access_granted) (simp add: countingController_def)

section \<open>The message handler\<close>

text \<open>\<open>deserialize\<close> returns a message exactly when it parses and its version is "2.0".\<close>

lemma deserialize_checks_version_only:
  "deserialize JSON_parse data = Inr message \<longleftrightarrow>
     JSON_parse data = Inr message \<and> readJsonrpc message = Inr (JStr ''2.0'')"
  by (auto simp: deserialize_def validateMessage_def split: sum.splits if_splits)

text \<open>
  Claim C6. Decoding any message whose structure violates the envelope invariant --
  exactly one of "method present" or "result xor error present" -- fails with a decode
  error. The code at inputs where this fails: a message with a method and a result, and
  a message with none of method, result and error, are both returned.
\<close>

theorem deserialize_accepts_broken_envelope:
  "deserialize (\<lambda>data. Inr requestWithResult) data = Inr requestWithResult
   \<and> envelopeInvariant requestWithResult = False
   \<and> deserialize (\<lambda>data. Inr (JObj [(''jsonrpc'', JStr ''2.0''), (''id'', JNum 1)])) data
       = Inr (JObj [(''jsonrpc'', JStr ''2.0''), (''id'', JNum 1)])
   \<and> envelopeInvariant (JObj [(''jsonrpc'', JStr ''2.0''), (''id'', JNum 1)]) = False"
  by (simp add: deserialize_def validateMessage_def requestWithResult_def
      envelopeInvariant_def present_def)

section \<open>The connection manager\<close>

text \<open>
  Claim C2, as amended. The connection state is always one of DISCONNECTED, CONNECTING,
  CONNECTED, ERROR and RECONNECTING. \<open>connect\<close> sets CONNECTING; when the transport is
  established it sets CONNECTED next, with no state in between, and resets the count of
  reconnect attempts; when establishing fails it leaves CONNECTING and hands the error
  to \<open>handleConnectionError\<close>.
\<close>

theorem connect_transitions:
  "(establishConnection env config = Inr () \<longrightarrow>
      connect env config m
        = ([CONNECTING, CONNECTED], m\<lparr>state := CONNECTED, reconnectAttempts := 0\<rparr>))
   \<and> (\<forall>e. establishConnection env config = Inl e \<longrightarrow>
      connect env config m
        = ([CONNECTING], handleConnectionError env e (m\<lparr>state := CONNECTING\<rparr>)))
   \<and> (UNIV :: ConnectionState set) = {DISCONNECTED, CONNECTING, CONNECTED, ERROR, RECONNECTING}"
proof -
  have "(UNIV :: ConnectionState set) = {DISCONNECTED, CONNECTING, CONNECTED, ERROR, RECONNECTING}"
  proof -
    have "x \<in> {DISCONNECTED, CONNECTING, CONNECTED, ERROR, RECONNECTING}" for x :: ConnectionState
      by (cases x) simp_all
    then show ?thesis by blast
  qed
  then show ?thesis
    by (simp add: connect_def)
qed

text \<open>The theorem at a transport that comes up and at one that refuses.\<close>

theorem connect_transitions_witness:
  "connect stdioUp \<lparr>transport = ''stdio''\<rparr> newConnectionManager
     = ([CONNECTING, CONNECTED],
        \<lparr>state = CONNECTED, reconnectAttempts = 0, maxReconnectAttempts = 5\<rparr>)
   \<and> connect stdioUp \<lparr>transport = ''sse''\<rparr> newConnectionManager
     = ([CONNECTING], \<lparr>state = ERROR, reconnectAttempts = 0, maxReconnectAttempts = 5\<rparr>)"
proof -
  have ok: "establishConnection stdioUp \<lparr>transport = ''stdio''\<rparr> = Inr ()"
    by (simp add: establishConnection_def stdioUp_def)
  have ko: "establishConnection stdioUp \<lparr>transport = ''sse''\<rparr> = Inl (Error ''refused'')"
    by (simp add: establishConnection_def stdioUp_def)
  show ?thesis
    using connect_transitions [of stdioUp "\<lparr>transport = ''stdio''\<rparr>" newConnectionManager] ok
      connect_transitions [of stdioUp "\<lparr>transport = ''sse''\<rparr>" newConnectionManager] ko
    by (simp add: newConnectionManager_def stdioUp_def)
qed

text \<open>
  Claim C2 as stated fails: a successful connect from the initial state passes through
  three states, and no naming of the code's states turns them into the spec's path
  Disconnected, Connecting, Negotiating, Ready.
\<close>

theorem connect_skips_negotiating:
  "\<not> (\<exists>f. map f (state newConnectionManager
               # fst (connect stdioUp \<lparr>transport = ''stdio''\<rparr> newConnectionManager))
            = specConnectPath)"
proof
  assume "\<exists>f. map f (state newConnectionManager
               # fst (connect stdioUp \<lparr>transport = ''stdio''\<rparr> newConnectionManager))
            = specConnectPath"
  then obtain f where "map f (state newConnectionManager
               # fst (connect stdioUp \<lparr>transport = ''stdio''\<rparr> newConnectionManager))
            = specConnectPath" ..
  then have "length (state newConnectionManager
               # fst (connect stdioUp \<lparr>transport = ''stdio''\<rparr> newConnectionManager))
            = length specConnectPath"
    by (metis length_map)
  then show False
    by (simp add: connect_def establishConnection_def stdioUp_def specConnectPath_def)
qed

section \<open>The batcher\<close>

lemma sendMessage_below_size:
  "length (batch b) + 1 < batchSize \<Longrightarrow>
     sendMessage env m b
       = (Undefined, b\<lparr>batch := batch b @ [m],
                       timers := (if batch b = [] then timers b + 1 else timers b)\<rparr>)"
  by (auto simp: sendMessage_def Let_def)

text \<open>
  Fewer calls than the batch size are collected in their arrival order, with one timer
  armed by the first; each call's promise settles to \<open>undefined\<close> at once.
\<close>

lemma runBatcher_calls_below_size:
  "length (batch b) + length ms < batchSize \<Longrightarrow>
     runBatcher env (map Call ms) b
       = (replicate (length ms) Undefined,
          b\<lparr>batch := batch b @ ms,
            timers := (if batch b = [] \<and> ms \<noteq> [] then timers b + 1 else timers b)\<rparr>)"
proof (induction ms arbitrary: b)
  case Nil
  then show ?case by simp
next
  case (Cons m ms)
  let ?b1 = "b\<lparr>batch := batch b @ [m],
                timers := (if batch b = [] then timers b + 1 else timers b)\<rparr>"
  have s: "sendMessage env m b = (Undefined, ?b1)"
    using Cons.prems by (intro sendMessage_below_size) simp
  have "length (batch ?b1) + length ms < batchSize"
    using Cons.prems by simp
  from Cons.IH [OF this] show ?case
    by (simp add: s)
qed

lemma runBatcher_append:
  "runBatcher env (xs @ ys) b
     = (case runBatcher env xs b of
          (rs, b') \<Rightarrow> (case runBatcher env ys b' of (rs', b'') \<Rightarrow> (rs @ rs', b'')))"
proof (induction xs arbitrary: b)
  case Nil
  then show ?case by (simp split: prod.splits)
next
  case (Cons x xs)
  then show ?case
    by (cases x) (simp_all split: prod.splits)
qed

text \<open>
  One to nine calls and then the timeout: one transmission, carrying the requests in
  their arrival order, and every promise settled to \<open>undefined\<close> before it.
\<close>

lemma runBatcher_window:
  assumes "ms \<noteq> []" and "length ms < batchSize"
  shows "runBatcher env (map Call ms @ [TimerFires]) newMessageBatcher
           = (replicate (length ms) Undefined,
              \<lparr>batch = [], timers = 0, sent = [createBatchRequest env ms]\<rparr>)"
proof -
  have "runBatcher env (map Call ms) newMessageBatcher
          = (replicate (length ms) Undefined, \<lparr>batch = ms, timers = 1, sent = []\<rparr>)"
    using assms runBatcher_calls_below_size [of newMessageBatcher ms env]
    by (simp add: newMessageBatcher_def)
  then show ?thesis
    by (simp add: runBatcher_append timerFires_def flushBatch_def Let_def
        split: sum.splits)
qed

text \<open>
  Claim C3. For every k concurrent calls (k at most the batch size limit) issued within
  one coalescing window, exactly one wire transmission is sent carrying the k
  sub-requests in their arrival order, and each of the k futures resolves with the
  response bearing its own correlation id. The code at inputs where this fails: five
  calls and the timeout give one transmission of the five requests in order, and five
  promises settled to \<open>undefined\<close>; ten calls and the timeout give a second, empty
  transmission.
\<close>

theorem sendMessage_promises_undefined:
  "runBatcher env [Call r1, Call r2, Call r3, Call r4, Call r5, TimerFires] newMessageBatcher
     = ([Undefined, Undefined, Undefined, Undefined, Undefined],
        \<lparr>batch = [], timers = 0, sent = [createBatchRequest env [r1, r2, r3, r4, r5]]\<rparr>)
   \<and> sent (snd (runBatcher env
         [Call a1, Call a2, Call a3, Call a4, Call a5, Call a6, Call a7, Call a8, Call a9,
          Call a10, TimerFires] newMessageBatcher))
     = [createBatchRequest env [a1, a2, a3, a4, a5, a6, a7, a8, a9, a10],
        createBatchRequest env []]"
  by (simp add: sendMessage_def flushBatch_def timerFires_def newMessageBatcher_def
      batchSize_def Let_def split: sum.splits prod.splits)

end
